theory Spec2Isabelle
  imports Complex_Main
begin

section \<open>JavaScript values used by the two scripts\<close>

text \<open>
  The scripts read coordinates out of untyped JavaScript objects.  A property value is one
  of: \<open>undefined\<close>, \<open>null\<close>, a finite number, \<open>NaN\<close>, or some other non-nullish value
  whose numeric coercion is \<open>NaN\<close> (a function, a plain object, a non-numeric string),
  written \<open>JObj\<close>.  Finite numbers are modelled by real numbers: the IEEE rounding of the
  double arithmetic is idealised, infinities are left out.
\<close>

datatype jsval = JUndefined | JNull | JNum real | JNaN | JObj

text \<open>The result of a numeric computation: \<open>None\<close> stands for \<open>NaN\<close>.\<close>

type_synonym jsnum = "real option"

fun toNumber :: "jsval \<Rightarrow> jsnum" where
  "toNumber JUndefined = None"
| "toNumber JNull = Some 0"
| "toNumber (JNum r) = Some r"
| "toNumber JNaN = None"
| "toNumber JObj = None"

text \<open>Truthiness, as used by \<open>a || b\<close> and \<open>!a\<close>.\<close>

fun truthy :: "jsval \<Rightarrow> bool" where
  "truthy JUndefined = False"
| "truthy JNull = False"
| "truthy (JNum r) = (r \<noteq> 0)"
| "truthy JNaN = False"
| "truthy JObj = True"

text \<open>\<open>typeof v === 'number'\<close>\<close>

fun isNumberType :: "jsval \<Rightarrow> bool" where
  "isNumberType (JNum r) = True"
| "isNumberType JNaN = True"
| "isNumberType v = False"

text \<open>\<open>Math.abs(a - b) < 0.00001\<close>; a comparison with \<open>NaN\<close> is false.\<close>

definition absDiffLess :: "jsval \<Rightarrow> jsval \<Rightarrow> bool" where
  "absDiffLess a b =
     (case toNumber a of
        None \<Rightarrow> False
      | Some p \<Rightarrow> (case toNumber b of None \<Rightarrow> False | Some q \<Rightarrow> \<bar>p - q\<bar> < 0.00001))"

section \<open>The injected script of app/index.tsx: map center preservation\<close>

definition DEFAULT_SEOUL_LAT :: real where
  "DEFAULT_SEOUL_LAT = 37.566826"

definition DEFAULT_SEOUL_LNG :: real where
  "DEFAULT_SEOUL_LNG = 126.9786567"

text \<open>
  A coordinate object as the wrapper reads it: the properties \<open>lat\<close>, \<open>lng\<close>, \<open>x\<close>, \<open>y\<close>,
  each possibly \<open>undefined\<close>.  The argument of \<open>setCenter\<close> is a \<open>latlng option\<close>, \<open>None\<close>
  for a nullish argument.
\<close>

datatype latlng = LatLng (lat_prop: jsval) (lng_prop: jsval) (x_prop: jsval) (y_prop: jsval)

text \<open>
  \<open>new naver.maps.LatLng(a, b)\<close>.  The mapping library is not part of the repository; the
  object it builds is taken to be the one the wrapper's own extraction presumes: \<open>lat\<close> and
  \<open>lng\<close> read back the arguments, \<open>y\<close> and \<open>x\<close> mirror them.
\<close>

definition newLatLng :: "jsval \<Rightarrow> jsval \<Rightarrow> latlng" where
  "newLatLng a b = LatLng a b b a"

text \<open>The globals of the embedded page that the script uses.\<close>

record window =
  savedMapCenter :: "(jsval \<times> jsval) option"
  isFirstMapLoad :: bool
  naverLoaded :: bool

text \<open>
  One map instance.  \<open>center\<close> is what \<open>getCenter()\<close> returns (\<open>None\<close>: nothing),
  \<open>originalCalls\<close> logs every invocation of the instance's own, unwrapped \<open>setCenter\<close>,
  \<open>wrapped\<close> tells whether the instance came out of the intercepted constructor.
\<close>

record widget =
  center :: "latlng option"
  originalCalls :: "latlng option list"
  wrapped :: bool

text \<open>The state right after the script's initialisation (lines 889 and 892).\<close>

definition initWindow :: "bool \<Rightarrow> window" where
  "initWindow nv = \<lparr>savedMapCenter = None, isFirstMapLoad = True, naverLoaded = nv\<rparr>"

text \<open>
  The library's own \<open>setCenter\<close> (\<open>originalSetCenter\<close>, bound before wrapping): it is taken
  to display what it is given.
\<close>

definition originalSetCenter :: "latlng option \<Rightarrow> widget \<Rightarrow> widget" where
  "originalSetCenter a w = w\<lparr>center := a, originalCalls := originalCalls w @ [a]\<rparr>"

text \<open>The instance returned by the replaced constructor \<open>naver.maps.Map\<close>.\<close>

definition interceptedMap :: "latlng option \<Rightarrow> widget" where
  "interceptedMap c = \<lparr>center = c, originalCalls = [], wrapped = True\<rparr>"

text \<open>Lines 1017 and 1018.\<close>

definition extractLat :: "latlng option \<Rightarrow> jsval" where
  "extractLat a =
     (case a of
        None \<Rightarrow> JNull
      | Some p \<Rightarrow>
          if lat_prop p \<noteq> JUndefined then lat_prop p
          else if y_prop p \<noteq> JUndefined then y_prop p else JNull)"

definition extractLng :: "latlng option \<Rightarrow> jsval" where
  "extractLng a =
     (case a of
        None \<Rightarrow> JNull
      | Some p \<Rightarrow>
          if lng_prop p \<noteq> JUndefined then lng_prop p
          else if x_prop p \<noteq> JUndefined then x_prop p else JNull)"

text \<open>Line 1025.\<close>

definition isDefaultCoords :: "jsval \<Rightarrow> jsval \<Rightarrow> bool" where
  "isDefaultCoords lat lng =
     (absDiffLess lat (JNum DEFAULT_SEOUL_LAT) \<and> absDiffLess lng (JNum DEFAULT_SEOUL_LNG))"

text \<open>The replacement \<open>mapInstance.setCenter\<close>, lines 1016 to 1066.\<close>

definition wrappedSetCenter :: "latlng option \<Rightarrow> window \<Rightarrow> widget \<Rightarrow> window \<times> widget" where
  "wrappedSetCenter a win w =
     (let lat = extractLat a; lng = extractLng a in
      if lat = JNull \<or> lng = JNull then (win, originalSetCenter a w)
      else if isFirstMapLoad win then
        (if \<not> isDefaultCoords lat lng
         then (win\<lparr>isFirstMapLoad := False, savedMapCenter := Some (lat, lng)\<rparr>,
               originalSetCenter a w)
         else (win\<lparr>isFirstMapLoad := False\<rparr>, originalSetCenter a w))
      else
        (case savedMapCenter win of
           Some (slat, slng) \<Rightarrow>
             if isDefaultCoords lat lng
             then (win, originalSetCenter (Some (newLatLng slat slng)) w)
             else (win\<lparr>savedMapCenter := Some (lat, lng)\<rparr>, originalSetCenter a w)
         | None \<Rightarrow>
             if isDefaultCoords lat lng then (win, w)
             else (win\<lparr>savedMapCenter := Some (lat, lng)\<rparr>, originalSetCenter a w)))"

text \<open>\<open>mapInstance.setCenter(a)\<close>: the wrapper on an intercepted instance, the library's method otherwise.\<close>

definition setCenter :: "latlng option \<Rightarrow> window \<Rightarrow> widget \<Rightarrow> window \<times> widget" where
  "setCenter a win w =
     (if wrapped w then wrappedSetCenter a win w else (win, originalSetCenter a w))"

subsection \<open>The monitoring interval (lines 1101 to 1132)\<close>

definition isAtDefault :: "jsval \<Rightarrow> jsval \<Rightarrow> bool" where
  "isAtDefault lat lng =
     (absDiffLess lat (JNum DEFAULT_SEOUL_LAT) \<and> absDiffLess lng (JNum DEFAULT_SEOUL_LNG))"

definition isAtSaved :: "jsval \<Rightarrow> jsval \<Rightarrow> jsval \<times> jsval \<Rightarrow> bool" where
  "isAtSaved lat lng saved = (absDiffLess lat (fst saved) \<and> absDiffLess lng (snd saved))"

text \<open>\<open>currentCenter.lat || currentCenter.y\<close> and \<open>currentCenter.lng || currentCenter.x\<close>\<close>

definition currentLat :: "latlng \<Rightarrow> jsval" where
  "currentLat cc = (if truthy (lat_prop cc) then lat_prop cc else y_prop cc)"

definition currentLng :: "latlng \<Rightarrow> jsval" where
  "currentLng cc = (if truthy (lng_prop cc) then lng_prop cc else x_prop cc)"

text \<open>
  The body of the \<open>forEach\<close> callback for one element matched by the selector: \<open>None\<close> as
  the container is an element without \<open>__naverMap\<close>.  The result \<open>None\<close> is the
  \<open>TypeError\<close> of reading \<open>window.__savedMapCenter.lat\<close> from \<open>null\<close>.
\<close>

definition monitorContainer :: "window \<Rightarrow> widget option \<Rightarrow> (window \<times> widget option) option" where
  "monitorContainer win c =
     (case c of
        None \<Rightarrow> Some (win, None)
      | Some m \<Rightarrow>
          (case center m of
             None \<Rightarrow> Some (win, Some m)
           | Some cc \<Rightarrow>
               if \<not> truthy (currentLat cc) \<or> \<not> truthy (currentLng cc) then Some (win, Some m)
               else
                 (case savedMapCenter win of
                    None \<Rightarrow> None
                  | Some saved \<Rightarrow>
                      if isAtDefault (currentLat cc) (currentLng cc)
                         \<and> \<not> isAtSaved (currentLat cc) (currentLng cc) saved
                      then Some (fst (setCenter (Some (newLatLng (fst saved) (snd saved))) win m),
                                 Some (snd (setCenter (Some (newLatLng (fst saved) (snd saved))) win m)))
                      else Some (win, Some m))))"

text \<open>
  \<open>mapContainers.forEach\<close> inside the \<open>try\<close>: an exception leaves the remaining containers
  untouched and is swallowed by the \<open>catch\<close>.
\<close>

fun monitorEach :: "window \<Rightarrow> widget option list \<Rightarrow> window \<times> widget option list" where
  "monitorEach win [] = (win, [])"
| "monitorEach win (c # cs) =
     (case monitorContainer win c of
        None \<Rightarrow> (win, c # cs)
      | Some (win', c') \<Rightarrow> (fst (monitorEach win' cs), c' # snd (monitorEach win' cs)))"

text \<open>One run of the interval callback over the containers the selector finds.\<close>

definition monitorTick :: "window \<Rightarrow> widget option list \<Rightarrow> window \<times> widget option list" where
  "monitorTick win cs =
     (if savedMapCenter win = None \<or> \<not> naverLoaded win then (win, cs) else monitorEach win cs)"

subsection \<open>The monitoring interval over the live map instances\<close>

text \<open>
  The interval reaches a map instance only through the DOM: through an element that the
  selector matches and whose property \<open>__naverMap\<close> refers to the instance.  To tell the
  instances that exist from the instances that are found, the live instances are kept in a
  list and named by their position; \<open>cs\<close> lists, for each element the selector matches,
  the instance its \<open>__naverMap\<close> refers to (\<open>None\<close>: no such property).  The replaced
  constructor returns the new instance to its caller and stores it nowhere, and no
  statement of the script assigns \<open>__naverMap\<close>.
\<close>

definition attachedMap :: "widget list \<Rightarrow> nat option \<Rightarrow> widget option" where
  "attachedMap ws c =
     (case c of None \<Rightarrow> None | Some h \<Rightarrow> if h < length ws then Some (ws ! h) else None)"

text \<open>What a run of the callback writes back to the instance the element refers to.\<close>

definition putBack :: "widget list \<Rightarrow> nat option \<Rightarrow> widget option \<Rightarrow> widget list" where
  "putBack ws c r =
     (case c of
        None \<Rightarrow> ws
      | Some h \<Rightarrow> (case r of None \<Rightarrow> ws | Some m \<Rightarrow> ws[h := m]))"

fun monitorHandles :: "window \<Rightarrow> widget list \<Rightarrow> nat option list \<Rightarrow> window \<times> widget list" where
  "monitorHandles win ws [] = (win, ws)"
| "monitorHandles win ws (c # cs) =
     (case monitorContainer win (attachedMap ws c) of
        None \<Rightarrow> (win, ws)
      | Some (win', r) \<Rightarrow> monitorHandles win' (putBack ws c r) cs)"

definition monitorPage :: "window \<Rightarrow> widget list \<Rightarrow> nat option list \<Rightarrow> window \<times> widget list" where
  "monitorPage win ws cs =
     (if savedMapCenter win = None \<or> \<not> naverLoaded win then (win, ws)
      else monitorHandles win ws cs)"

subsection \<open>Reachable window states\<close>

text \<open>
  The window state starts as initialised by the script and is changed by \<open>setCenter\<close>
  calls on map instances (wrapped or not, in any state, with any argument), by runs of
  the monitoring interval over any containers, and by the mapping library becoming
  available.  A reachable state is the result of a finite sequence of such events.
\<close>

datatype event =
    SetCenterCall "latlng option" widget
  | MonitorRun "widget option list"
  | LibraryLoaded bool

fun pageStep :: "window \<Rightarrow> event \<Rightarrow> window" where
  "pageStep win (SetCenterCall a w) = fst (setCenter a win w)"
| "pageStep win (MonitorRun cs) = fst (monitorTick win cs)"
| "pageStep win (LibraryLoaded b) = win\<lparr>naverLoaded := b\<rparr>"

definition pageRun :: "bool \<Rightarrow> event list \<Rightarrow> window" where
  "pageRun nv evs = foldl pageStep (initWindow nv) evs"

definition savedCenterNotDefault :: "window \<Rightarrow> bool" where
  "savedCenterNotDefault win =
     (case savedMapCenter win of None \<Rightarrow> True | Some saved \<Rightarrow> \<not> isDefaultCoords (fst saved) (snd saved))"

section \<open>The receiver script web/gps-receiver.js\<close>

text \<open>
  The payload of a \<open>LOCATION_UPDATE\<close> message.  Latitude, longitude and accuracy come out
  of \<open>JSON.parse\<close> untyped; the timestamp is epoch milliseconds.
\<close>

record locationData =
  latitude :: jsval
  longitude :: jsval
  accuracy :: jsval
  timestamp :: int

text \<open>
  The map attached to the container as \<open>__naverMap\<close>.  \<open>mapCenter\<close> is what
  \<open>getCenter()\<close> answers through \<open>lat()\<close> and \<open>lng()\<close>, \<open>None\<close> when the object has no
  \<open>getCenter\<close>; \<open>setCenterCalls\<close> logs the calls of its \<open>setCenter\<close>, which is taken
  to display what it is given.
\<close>

record gpsMap =
  mapCenter :: "(jsnum \<times> jsnum) option"
  setCenterCalls :: "(jsnum \<times> jsnum) list"

text \<open>
  The page as the receiver sees it: the fields of \<open>window.__gpsState\<close>, the hook
  \<open>window.onGPSUpdate\<close> and the registered listeners (callbacks are opaque, named by a
  number, and their invocations are logged in \<open>callbackLog\<close>; they are assumed not to touch
  the state modelled here), whether \<open>naver.maps\<close> is defined, the map of the first
  element matching the selector (\<open>None\<close>: no such element, or none with \<open>__naverMap\<close>), and
  \<open>autoFollowLocation\<close>, false exactly when \<open>window.__autoFollowLocation === false\<close>.

  The script's \<open>calculateDistance\<close> (lines 244 to 253) is a haversine formula evaluated
  in IEEE double arithmetic with \<open>Math.sin\<close>, \<open>Math.cos\<close>, \<open>Math.sqrt\<close> and
  \<open>Math.atan2\<close>.  That arithmetic is not modelled: rounding decides its result (for
  nearly antipodal points the square root of a negative number makes it \<open>NaN\<close>).  What
  it returns for four finite arguments is therefore a parameter, the field
  \<open>calculateDistance\<close> of the page, and every general statement below holds for each
  value of that field.
\<close>

record gpsPage =
  isTracking :: bool
  lastLocation :: "locationData option"
  updateCount :: nat
  listeners :: "nat list"
  onGPSUpdate :: "nat option"
  callbackLog :: "(nat \<times> locationData) list"
  naverMaps :: bool
  mapContainer :: "gpsMap option"
  autoFollowLocation :: bool
  calculateDistance :: "real \<Rightarrow> real \<Rightarrow> real \<Rightarrow> real \<Rightarrow> jsnum"

datatype completion = Normal | TypeError

text \<open>\<open>distance > 50\<close>, false for \<open>NaN\<close>.\<close>

definition exceeds50 :: "jsnum \<Rightarrow> bool" where
  "exceeds50 distance = (case distance of None \<Rightarrow> False | Some d \<Rightarrow> 50 < d)"

text \<open>
  Lines 193 to 201: the distance between the displayed center and the sample, compared
  with 50.  A \<open>NaN\<close> among the four arguments makes the distance \<open>NaN\<close>.
\<close>

definition movedMoreThan50 :: "gpsPage \<Rightarrow> jsnum \<times> jsnum \<Rightarrow> jsnum \<times> jsnum \<Rightarrow> bool" where
  "movedMoreThan50 p cur new =
     (case (fst cur, snd cur, fst new, snd new) of
        (Some lat1, Some lng1, Some lat2, Some lng2) \<Rightarrow>
          exceeds50 (calculateDistance p lat1 lng1 lat2 lng2)
      | _ \<Rightarrow> False)"

text \<open>Lines 172 to 210.\<close>

definition updateMapCenter :: "locationData \<Rightarrow> gpsPage \<Rightarrow> gpsPage" where
  "updateMapCenter loc p =
     (if \<not> naverMaps p then p
      else
        (case mapContainer p of
           None \<Rightarrow> p
         | Some m \<Rightarrow>
             if \<not> autoFollowLocation p then p
             else
               (case mapCenter m of
                  None \<Rightarrow> p
                | Some cur \<Rightarrow>
                    if movedMoreThan50 p cur (toNumber (latitude loc), toNumber (longitude loc))
                    then p\<lparr>mapContainer :=
                            Some (m\<lparr>mapCenter := Some (toNumber (latitude loc), toNumber (longitude loc)),
                                    setCenterCalls := setCenterCalls m
                                       @ [(toNumber (latitude loc), toNumber (longitude loc))]\<rparr>)\<rparr>
                    else p)))"

text \<open>Lines 97 to 104 and 140 to 148: the hook, then every listener, each in its own \<open>try\<close>.\<close>

definition callOnGPSUpdate :: "locationData \<Rightarrow> gpsPage \<Rightarrow> gpsPage" where
  "callOnGPSUpdate loc p =
     (case onGPSUpdate p of
        None \<Rightarrow> p
      | Some f \<Rightarrow> p\<lparr>callbackLog := callbackLog p @ [(f, loc)]\<rparr>)"

definition notifyListeners :: "locationData \<Rightarrow> gpsPage \<Rightarrow> gpsPage" where
  "notifyListeners loc p = p\<lparr>callbackLog := callbackLog p @ map (\<lambda>f. (f, loc)) (listeners p)\<rparr>"

text \<open>
  Lines 77 to 114.  The argument is \<open>None\<close> for a falsy \<open>locationData\<close>.  The logging
  statement calls \<open>toFixed\<close> on the longitude, which throws a \<open>TypeError\<close> unless the
  longitude is of type number; the state has been written by then, the rest of the
  handler is skipped.  \<open>updateLocationUI\<close> only writes text into the document and is left
  out.
\<close>

definition handleLocationUpdate :: "locationData option \<Rightarrow> gpsPage \<Rightarrow> completion \<times> gpsPage" where
  "handleLocationUpdate d p =
     (case d of
        None \<Rightarrow> (Normal, p)
      | Some loc \<Rightarrow>
          if \<not> isNumberType (latitude loc) then (Normal, p)
          else
            (let p1 = p\<lparr>isTracking := True, lastLocation := Some loc,
                        updateCount := updateCount p + 1\<rparr>
             in if \<not> isNumberType (longitude loc) then (TypeError, p1)
                else (Normal, updateMapCenter loc (notifyListeners loc (callOnGPSUpdate loc p1)))))"

text \<open>
  A sequence of messages: each goes through the message listener, whose \<open>try\<close> swallows an
  exception of the handler.
\<close>

fun deliver :: "locationData option list \<Rightarrow> gpsPage \<Rightarrow> gpsPage" where
  "deliver [] p = p"
| "deliver (d # ds) p = deliver ds (snd (handleLocationUpdate d p))"

text \<open>The validation of lines 79 to 82 lets the sample through.\<close>

definition accepted :: "locationData option \<Rightarrow> bool" where
  "accepted d = (case d of None \<Rightarrow> False | Some loc \<Rightarrow> isNumberType (latitude loc))"

section \<open>Concrete states used in the examples\<close>

definition sample1000 :: locationData where
  "sample1000 = \<lparr>latitude = JNum 37.123, longitude = JNum 127.456, accuracy = JNum 5,
                   timestamp = 1000\<rparr>"

definition sample900 :: locationData where
  "sample900 = \<lparr>latitude = JNum 37.2, longitude = JNum 127.5, accuracy = JNum 5,
                  timestamp = 900\<rparr>"

text \<open>A page without a map: its distance routine is never consulted.\<close>

definition emptyPage :: gpsPage where
  "emptyPage = \<lparr>isTracking = False, lastLocation = None, updateCount = 0, listeners = [],
      onGPSUpdate = None, callbackLog = [], naverMaps = False, mapContainer = None,
      autoFollowLocation = True, calculateDistance = (\<lambda>lat1 lng1 lat2 lng2. None)\<rparr>"

definition mapAt :: "real \<Rightarrow> real \<Rightarrow> gpsMap" where
  "mapAt la lo = \<lparr>mapCenter = Some (Some la, Some lo), setCenterCalls = []\<rparr>"

text \<open>
  A page with the library loaded, the map \<open>m\<close> attached, auto-follow on, no hook and no
  listener, on which the distance routine answers \<open>d\<close>.
\<close>

definition pageWithMap :: "gpsMap \<Rightarrow> jsnum \<Rightarrow> gpsPage" where
  "pageWithMap m d = \<lparr>isTracking = False, lastLocation = None, updateCount = 0, listeners = [],
      onGPSUpdate = None, callbackLog = [], naverMaps = True, mapContainer = Some m,
      autoFollowLocation = True, calculateDistance = (\<lambda>lat1 lng1 lat2 lng2. d)\<rparr>"

definition savedWindow :: window where
  "savedWindow = \<lparr>savedMapCenter = Some (JNum 37.5, JNum 127), isFirstMapLoad = False,
                   naverLoaded = True\<rparr>"

definition defaultLatLng :: latlng where
  "defaultLatLng = newLatLng (JNum DEFAULT_SEOUL_LAT) (JNum DEFAULT_SEOUL_LNG)"

section \<open>Properties of the wrapped setCenter\<close>

lemma isDefaultCoords_not_null:
  "isDefaultCoords lat lng \<Longrightarrow> lat \<noteq> JNull \<and> lng \<noteq> JNull"
  by (auto simp: isDefaultCoords_def absDiffLess_def DEFAULT_SEOUL_LAT_def DEFAULT_SEOUL_LNG_def)

lemma extract_newLatLng:
  "a \<noteq> JUndefined \<Longrightarrow> extractLat (Some (newLatLng a b)) = a"
  "b \<noteq> JUndefined \<Longrightarrow> extractLng (Some (newLatLng a b)) = b"
  by (simp_all add: extractLat_def extractLng_def newLatLng_def)

text \<open>
  C1: once the first-load flag has been consumed and a center \<open>(A, B)\<close> that is not the
  default is saved, a \<open>setCenter\<close> call whose coordinates are the default ones leaves the
  window state as it is and invokes the original \<open>setCenter\<close> exactly once, with
  \<open>LatLng(A, B)\<close> and not with the requested object; the instance then displays
  \<open>(A, B)\<close>, not the default.
\<close>

theorem default_call_restores_saved_center:
  assumes "\<not> isFirstMapLoad win"
    and "savedMapCenter win = Some (JNum A, JNum B)"
    and "\<not> isDefaultCoords (JNum A) (JNum B)"
    and "isDefaultCoords (extractLat a) (extractLng a)"
  shows "wrappedSetCenter a win w = (win, originalSetCenter (Some (newLatLng (JNum A) (JNum B))) w)
       \<and> center (snd (wrappedSetCenter a win w)) = Some (newLatLng (JNum A) (JNum B))
       \<and> originalCalls (snd (wrappedSetCenter a win w))
           = originalCalls w @ [Some (newLatLng (JNum A) (JNum B))]
       \<and> \<not> isDefaultCoords (extractLat (center (snd (wrappedSetCenter a win w))))
                             (extractLng (center (snd (wrappedSetCenter a win w))))"
proof -
  from assms(4) have nn: "extractLat a \<noteq> JNull" "extractLng a \<noteq> JNull"
    using isDefaultCoords_not_null by blast+
  have eq: "wrappedSetCenter a win w
              = (win, originalSetCenter (Some (newLatLng (JNum A) (JNum B))) w)"
    using assms(1,2,4) nn by (simp add: wrappedSetCenter_def Let_def)
  show ?thesis
    using assms(3) by (simp add: eq originalSetCenter_def extract_newLatLng)
qed

lemma default_is_default:
  "isDefaultCoords (extractLat (Some (newLatLng (JNum DEFAULT_SEOUL_LAT) (JNum DEFAULT_SEOUL_LNG))))
                   (extractLng (Some (newLatLng (JNum DEFAULT_SEOUL_LAT) (JNum DEFAULT_SEOUL_LNG))))"
  by (simp add: extract_newLatLng isDefaultCoords_def absDiffLess_def)

lemma not_default_375_127: "\<not> isDefaultCoords (JNum 37.5) (JNum 127)"
  by (simp add: isDefaultCoords_def absDiffLess_def DEFAULT_SEOUL_LAT_def)

theorem default_call_restores_saved_center_witness:
  "wrappedSetCenter (Some (newLatLng (JNum DEFAULT_SEOUL_LAT) (JNum DEFAULT_SEOUL_LNG)))
     \<lparr>savedMapCenter = Some (JNum 37.5, JNum 127), isFirstMapLoad = False, naverLoaded = True\<rparr>
     (interceptedMap None)
   = (\<lparr>savedMapCenter = Some (JNum 37.5, JNum 127), isFirstMapLoad = False, naverLoaded = True\<rparr>,
      \<lparr>center = Some (LatLng (JNum 37.5) (JNum 127) (JNum 127) (JNum 37.5)),
       originalCalls = [Some (LatLng (JNum 37.5) (JNum 127) (JNum 127) (JNum 37.5))],
       wrapped = True\<rparr>)"
  using default_call_restores_saved_center
          [of "\<lparr>savedMapCenter = Some (JNum 37.5, JNum 127), isFirstMapLoad = False, naverLoaded = True\<rparr>"
              "37.5" "127"
              "Some (newLatLng (JNum DEFAULT_SEOUL_LAT) (JNum DEFAULT_SEOUL_LNG))"
              "interceptedMap None",
           OF _ _ not_default_375_127 default_is_default]
  by (simp add: originalSetCenter_def interceptedMap_def newLatLng_def)

text \<open>
  C3 as stated fails: the first-call flag \<open>__isFirstMapLoad\<close> is one global of the page,
  not a flag of each instance.  Two instances come out of the intercepted constructor; the
  first call on the first one (default coordinates) is passed through and consumes the
  flag; the first call on the second one, with the same coordinates, is blocked: the
  original \<open>setCenter\<close> of the second instance is never invoked.
\<close>

theorem second_widget_first_call_blocked:
  "snd (wrappedSetCenter (Some (newLatLng (JNum DEFAULT_SEOUL_LAT) (JNum DEFAULT_SEOUL_LNG)))
         (fst (wrappedSetCenter (Some (newLatLng (JNum DEFAULT_SEOUL_LAT) (JNum DEFAULT_SEOUL_LNG)))
                 (initWindow True) (interceptedMap None)))
         (interceptedMap None))
   = interceptedMap None
   \<and> originalCalls (interceptedMap None) = []
   \<and> snd (wrappedSetCenter (Some (newLatLng (JNum DEFAULT_SEOUL_LAT) (JNum DEFAULT_SEOUL_LNG)))
            (initWindow True) (interceptedMap None))
     = originalSetCenter (Some (newLatLng (JNum DEFAULT_SEOUL_LAT) (JNum DEFAULT_SEOUL_LNG)))
         (interceptedMap None)"
  using default_is_default
  by (simp add: wrappedSetCenter_def Let_def initWindow_def interceptedMap_def
        isDefaultCoords_not_null)

text \<open>
  C3, amended: the first-call exception belongs to the page, not to the instance.  While
  the global flag \<open>__isFirstMapLoad\<close> is set, a \<open>setCenter\<close> call on any intercepted
  instance is handed to the original \<open>setCenter\<close> with the very object it was given,
  whatever its coordinates; the flag stays set afterwards exactly when no latitude or no
  longitude could be read from the argument, and is cleared for every instance otherwise.
\<close>

theorem first_load_call_applied_verbatim:
  assumes "isFirstMapLoad win"
  shows "snd (wrappedSetCenter a win w) = originalSetCenter a w
       \<and> isFirstMapLoad (fst (wrappedSetCenter a win w))
           = (extractLat a = JNull \<or> extractLng a = JNull)"
  using assms by (simp add: wrappedSetCenter_def Let_def)

theorem first_load_call_applied_verbatim_witness:
  "snd (wrappedSetCenter (Some (newLatLng (JNum DEFAULT_SEOUL_LAT) (JNum DEFAULT_SEOUL_LNG)))
          (initWindow True) (interceptedMap None))
     = \<lparr>center = Some (newLatLng (JNum DEFAULT_SEOUL_LAT) (JNum DEFAULT_SEOUL_LNG)),
        originalCalls = [Some (newLatLng (JNum DEFAULT_SEOUL_LAT) (JNum DEFAULT_SEOUL_LNG))],
        wrapped = True\<rparr>
   \<and> \<not> isFirstMapLoad
         (fst (wrappedSetCenter (Some (newLatLng (JNum DEFAULT_SEOUL_LAT) (JNum DEFAULT_SEOUL_LNG)))
                 (initWindow True) (interceptedMap None)))"
  using first_load_call_applied_verbatim
          [of "initWindow True"
              "Some (newLatLng (JNum DEFAULT_SEOUL_LAT) (JNum DEFAULT_SEOUL_LNG))"
              "interceptedMap None"]
  by (simp add: initWindow_def originalSetCenter_def interceptedMap_def extract_newLatLng)

text \<open>
  C4: after the first-load flag has been consumed, a \<open>setCenter\<close> call whose coordinates
  \<open>(A, B)\<close> are not the default ones is handed unchanged to the original \<open>setCenter\<close>, so
  the instance displays the requested object, and the saved center becomes \<open>(A, B)\<close>.
\<close>

theorem non_default_call_applied_and_saved:
  assumes "\<not> isFirstMapLoad win"
    and "extractLat a = JNum A" and "extractLng a = JNum B"
    and "\<not> isDefaultCoords (JNum A) (JNum B)"
  shows "wrappedSetCenter a win w
           = (win\<lparr>savedMapCenter := Some (JNum A, JNum B)\<rparr>, originalSetCenter a w)
       \<and> center (snd (wrappedSetCenter a win w)) = a
       \<and> originalCalls (snd (wrappedSetCenter a win w)) = originalCalls w @ [a]
       \<and> savedMapCenter (fst (wrappedSetCenter a win w)) = Some (JNum A, JNum B)"
  using assms
  by (simp add: wrappedSetCenter_def Let_def originalSetCenter_def split: option.splits)

theorem non_default_call_applied_and_saved_witness:
  "wrappedSetCenter (Some (newLatLng (JNum 37.5) (JNum 127)))
     \<lparr>savedMapCenter = Some (JNum 35, JNum 129), isFirstMapLoad = False, naverLoaded = True\<rparr>
     (interceptedMap None)
   = (\<lparr>savedMapCenter = Some (JNum 37.5, JNum 127), isFirstMapLoad = False, naverLoaded = True\<rparr>,
      \<lparr>center = Some (newLatLng (JNum 37.5) (JNum 127)),
       originalCalls = [Some (newLatLng (JNum 37.5) (JNum 127))],
       wrapped = True\<rparr>)"
  using non_default_call_applied_and_saved
          [of "\<lparr>savedMapCenter = Some (JNum 35, JNum 129), isFirstMapLoad = False, naverLoaded = True\<rparr>"
              "Some (newLatLng (JNum 37.5) (JNum 127))" "37.5" "127" "interceptedMap None",
           OF _ _ _ not_default_375_127]
  by (simp add: extract_newLatLng originalSetCenter_def interceptedMap_def)

text \<open>
  C5 as stated fails: that an instance has had its first call does not mean that the
  page-global flag is cleared.  On a fresh page the first call on the instance carries an
  \<open>undefined\<close> argument: the wrapper hands it to the original \<open>setCenter\<close> and returns
  before it touches the flag, and the saved center stays empty.  The next call on the same
  instance, with the default coordinates, then still counts as the first map load and is
  handed to the original \<open>setCenter\<close>, not blocked.
\<close>

theorem default_call_after_unreadable_first_call_passes:
  "wrappedSetCenter None (initWindow True) (interceptedMap None)
     = (initWindow True, \<lparr>center = None, originalCalls = [None], wrapped = True\<rparr>)
   \<and> savedMapCenter (initWindow True) = None
   \<and> wrappedSetCenter (Some defaultLatLng) (initWindow True)
         \<lparr>center = None, originalCalls = [None], wrapped = True\<rparr>
     = (\<lparr>savedMapCenter = None, isFirstMapLoad = False, naverLoaded = True\<rparr>,
        \<lparr>center = Some defaultLatLng, originalCalls = [None, Some defaultLatLng],
         wrapped = True\<rparr>)"
  using default_is_default
  by (simp add: wrappedSetCenter_def Let_def initWindow_def interceptedMap_def extractLat_def
        originalSetCenter_def defaultLatLng_def isDefaultCoords_not_null)

text \<open>
  C5, amended: once the page-global flag \<open>__isFirstMapLoad\<close> has been cleared and while
  no center is saved, a \<open>setCenter\<close> call on a wrapped instance whose coordinates are the
  default ones changes nothing: the original \<open>setCenter\<close> is not invoked (the instance,
  with its call log, is returned as it was) and the saved center stays empty.
\<close>

theorem default_call_without_saved_center_dropped:
  assumes "\<not> isFirstMapLoad win"
    and "savedMapCenter win = None"
    and "isDefaultCoords (extractLat a) (extractLng a)"
  shows "wrappedSetCenter a win w = (win, w)
       \<and> originalCalls (snd (wrappedSetCenter a win w)) = originalCalls w
       \<and> savedMapCenter (fst (wrappedSetCenter a win w)) = None"
proof -
  from assms(3) have "extractLat a \<noteq> JNull" "extractLng a \<noteq> JNull"
    using isDefaultCoords_not_null by blast+
  then have "wrappedSetCenter a win w = (win, w)"
    using assms by (simp add: wrappedSetCenter_def Let_def)
  then show ?thesis using assms(2) by simp
qed

theorem default_call_without_saved_center_dropped_witness:
  "wrappedSetCenter (Some (newLatLng (JNum DEFAULT_SEOUL_LAT) (JNum DEFAULT_SEOUL_LNG)))
     \<lparr>savedMapCenter = None, isFirstMapLoad = False, naverLoaded = True\<rparr>
     (interceptedMap (Some (newLatLng (JNum 35) (JNum 129))))
   = (\<lparr>savedMapCenter = None, isFirstMapLoad = False, naverLoaded = True\<rparr>,
      interceptedMap (Some (newLatLng (JNum 35) (JNum 129))))"
  using default_call_without_saved_center_dropped
          [of "\<lparr>savedMapCenter = None, isFirstMapLoad = False, naverLoaded = True\<rparr>"
              "Some (newLatLng (JNum DEFAULT_SEOUL_LAT) (JNum DEFAULT_SEOUL_LNG))"
              "interceptedMap (Some (newLatLng (JNum 35) (JNum 129)))",
           OF _ _ default_is_default]
  by simp

section \<open>Invalid coordinates\<close>

text \<open>
  C6 as stated fails.  A \<open>setCenter\<close> call from whose argument no coordinates can be
  read is not dropped: the wrapper hands it to the original \<open>setCenter\<close> (the log line
  says "allowing"), here the \<open>undefined\<close> argument.  And neither script checks a range:
  a sample with latitude 1000 is stored by the receiver.
\<close>

theorem invalid_coordinates_reach_widget_and_store:
  "wrappedSetCenter None savedWindow (interceptedMap (Some (newLatLng (JNum 37.5) (JNum 127))))
     = (savedWindow, \<lparr>center = None, originalCalls = [None], wrapped = True\<rparr>)
   \<and> lastLocation (snd (handleLocationUpdate
         (Some \<lparr>latitude = JNum 1000, longitude = JNum 127, accuracy = JNum 5, timestamp = 1\<rparr>)
         emptyPage))
     = Some \<lparr>latitude = JNum 1000, longitude = JNum 127, accuracy = JNum 5, timestamp = 1\<rparr>"
  by (simp add: wrappedSetCenter_def Let_def extractLat_def originalSetCenter_def
        interceptedMap_def handleLocationUpdate_def emptyPage_def updateMapCenter_def
        notifyListeners_def callOnGPSUpdate_def)

text \<open>
  C6, amended: the receiver discards a sample that is absent or whose latitude is not of
  type number, and leaves the whole page state as it was; the wrapped \<open>setCenter\<close>, given
  an argument without a readable latitude or longitude, leaves the saved center and the
  first-load flag as they were and hands the argument unchanged to the original
  \<open>setCenter\<close>.
\<close>

theorem invalid_input_handling:
  "handleLocationUpdate None p = (Normal, p)
   \<and> (\<not> isNumberType (latitude loc) \<longrightarrow> handleLocationUpdate (Some loc) p = (Normal, p))
   \<and> (extractLat a = JNull \<or> extractLng a = JNull
        \<longrightarrow> wrappedSetCenter a win w = (win, originalSetCenter a w))"
  by (simp add: handleLocationUpdate_def wrappedSetCenter_def Let_def)

theorem invalid_input_handling_witness:
  "handleLocationUpdate None emptyPage = (Normal, emptyPage)
   \<and> handleLocationUpdate
        (Some \<lparr>latitude = JObj, longitude = JNum 127, accuracy = JNum 5, timestamp = 1\<rparr>) emptyPage
       = (Normal, emptyPage)
   \<and> wrappedSetCenter (Some (LatLng JUndefined (JNum 127) JUndefined JUndefined)) savedWindow
        (interceptedMap None)
       = (savedWindow,
          originalSetCenter (Some (LatLng JUndefined (JNum 127) JUndefined JUndefined))
            (interceptedMap None))"
  using invalid_input_handling
          [of emptyPage
              "\<lparr>latitude = JObj, longitude = JNum 127, accuracy = JNum 5, timestamp = 1\<rparr>"
              "Some (LatLng JUndefined (JNum 127) JUndefined JUndefined)"
              savedWindow "interceptedMap None"]
  by (simp add: extractLat_def)

section \<open>The saved center is never the default\<close>

lemma wrappedSetCenter_keeps_invariant:
  "savedCenterNotDefault win \<Longrightarrow> savedCenterNotDefault (fst (wrappedSetCenter a win w))"
  by (auto simp: wrappedSetCenter_def savedCenterNotDefault_def Let_def split: option.splits)

lemma setCenter_keeps_invariant:
  "savedCenterNotDefault win \<Longrightarrow> savedCenterNotDefault (fst (setCenter a win w))"
  by (simp add: setCenter_def wrappedSetCenter_keeps_invariant)

lemma monitorContainer_keeps_invariant:
  "monitorContainer win c = Some (win', c') \<Longrightarrow> savedCenterNotDefault win
     \<Longrightarrow> savedCenterNotDefault win'"
  by (auto simp: monitorContainer_def setCenter_keeps_invariant
           split: option.splits if_splits)

lemma monitorEach_keeps_invariant:
  "savedCenterNotDefault win \<Longrightarrow> savedCenterNotDefault (fst (monitorEach win cs))"
proof (induction cs arbitrary: win)
  case Nil
  then show ?case by simp
next
  case (Cons c cs)
  show ?case
  proof (cases "monitorContainer win c")
    case None
    then show ?thesis using Cons.prems by simp
  next
    case (Some r)
    obtain win' c' where r: "r = (win', c')" by (cases r)
    have "savedCenterNotDefault win'"
      using monitorContainer_keeps_invariant Some r Cons.prems by blast
    then show ?thesis using Some r Cons.IH by simp
  qed
qed

lemma monitorTick_keeps_invariant:
  "savedCenterNotDefault win \<Longrightarrow> savedCenterNotDefault (fst (monitorTick win cs))"
  by (simp add: monitorTick_def monitorEach_keeps_invariant)

lemma pageStep_keeps_invariant:
  "savedCenterNotDefault win \<Longrightarrow> savedCenterNotDefault (pageStep win ev)"
proof (cases ev)
  case (SetCenterCall a w)
  assume "savedCenterNotDefault win"
  then show ?thesis using SetCenterCall by (simp add: setCenter_keeps_invariant)
next
  case (MonitorRun cs)
  assume "savedCenterNotDefault win"
  then show ?thesis using MonitorRun by (simp add: monitorTick_keeps_invariant)
next
  case (LibraryLoaded b)
  assume "savedCenterNotDefault win"
  then show ?thesis using LibraryLoaded by (simp add: savedCenterNotDefault_def)
qed

lemma pageRun_invariant: "savedCenterNotDefault (pageRun nv evs)"
proof (induction evs rule: rev_induct)
  case Nil
  show ?case by (simp add: pageRun_def savedCenterNotDefault_def initWindow_def)
next
  case (snoc ev evs)
  then show ?case using pageStep_keeps_invariant [of "pageRun nv evs" ev]
    by (simp add: pageRun_def)
qed

lemma substituted_not_default:
  "\<not> isDefaultCoords sa sb
   \<Longrightarrow> \<not> isDefaultCoords (extractLat (Some (newLatLng sa sb))) (extractLng (Some (newLatLng sa sb)))"
  by (auto simp: extractLat_def extractLng_def newLatLng_def isDefaultCoords_def absDiffLess_def
        DEFAULT_SEOUL_LAT_def DEFAULT_SEOUL_LNG_def)

text \<open>
  C10: in every reachable window state, that is after any sequence of \<open>setCenter\<close>
  calls, monitoring runs and library loads from the initial state, \<open>__savedMapCenter\<close>
  is \<open>null\<close> or holds coordinates that are not within 0.00001 of the default ones in
  both components; hence the object \<open>new naver.maps.LatLng(saved.lat, saved.lng)\<close> that
  the blocking branch and the monitoring interval substitute never reads as the default
  center.
\<close>

theorem saved_center_never_default:
  "(case savedMapCenter (pageRun nv evs) of
      None \<Rightarrow> True
    | Some saved \<Rightarrow>
        \<not> isDefaultCoords (fst saved) (snd saved)
        \<and> \<not> isDefaultCoords (extractLat (Some (newLatLng (fst saved) (snd saved))))
                              (extractLng (Some (newLatLng (fst saved) (snd saved)))))"
  using pageRun_invariant [of nv evs]
  by (auto simp: savedCenterNotDefault_def substituted_not_default split: option.splits)

lemma default_coords_are_default:
  "isDefaultCoords (JNum DEFAULT_SEOUL_LAT) (JNum DEFAULT_SEOUL_LNG)"
  by (simp add: isDefaultCoords_def absDiffLess_def)

lemma run_step_first_call:
  "pageStep (initWindow True) (SetCenterCall (Some defaultLatLng) (interceptedMap None))
     = \<lparr>savedMapCenter = None, isFirstMapLoad = False, naverLoaded = True\<rparr>"
  using default_coords_are_default
  by (simp add: initWindow_def setCenter_def wrappedSetCenter_def Let_def
        interceptedMap_def defaultLatLng_def extract_newLatLng)

lemma run_step_legitimate_call:
  "pageStep \<lparr>savedMapCenter = None, isFirstMapLoad = False, naverLoaded = True\<rparr>
     (SetCenterCall (Some (newLatLng (JNum 37.5) (JNum 127))) (interceptedMap (Some defaultLatLng)))
     = savedWindow"
  using not_default_375_127
  by (simp add: setCenter_def wrappedSetCenter_def Let_def
        interceptedMap_def extract_newLatLng savedWindow_def)

lemma run_step_blocked_call:
  "pageStep savedWindow
     (SetCenterCall (Some defaultLatLng) (interceptedMap (Some (newLatLng (JNum 37.5) (JNum 127)))))
     = savedWindow"
  using default_coords_are_default
  by (simp add: setCenter_def wrappedSetCenter_def Let_def
        interceptedMap_def extract_newLatLng savedWindow_def defaultLatLng_def)

lemma run_step_monitor:
  "pageStep savedWindow (MonitorRun [None, Some (interceptedMap None)]) = savedWindow"
  by (simp add: monitorTick_def monitorContainer_def interceptedMap_def savedWindow_def)

theorem saved_center_never_default_witness:
  "savedMapCenter (pageRun True
      [SetCenterCall (Some defaultLatLng) (interceptedMap None),
       SetCenterCall (Some (newLatLng (JNum 37.5) (JNum 127))) (interceptedMap (Some defaultLatLng)),
       SetCenterCall (Some defaultLatLng) (interceptedMap (Some (newLatLng (JNum 37.5) (JNum 127)))),
       MonitorRun [None, Some (interceptedMap None)]])
     = Some (JNum 37.5, JNum 127)
   \<and> \<not> isDefaultCoords (JNum 37.5) (JNum 127)"
proof -
  let ?evs = "[SetCenterCall (Some defaultLatLng) (interceptedMap None),
       SetCenterCall (Some (newLatLng (JNum 37.5) (JNum 127))) (interceptedMap (Some defaultLatLng)),
       SetCenterCall (Some defaultLatLng) (interceptedMap (Some (newLatLng (JNum 37.5) (JNum 127)))),
       MonitorRun [None, Some (interceptedMap None)]]"
  have "pageRun True ?evs = savedWindow"
    unfolding pageRun_def foldl.simps run_step_first_call run_step_legitimate_call
      run_step_blocked_call run_step_monitor
    by (rule refl)
  then have run: "savedMapCenter (pageRun True ?evs) = Some (JNum 37.5, JNum 127)"
    by (simp add: savedWindow_def)
  show ?thesis using saved_center_never_default [of True ?evs] unfolding run by simp
qed

section \<open>The monitoring interval as a backstop\<close>

lemma setCenter_saved_coords:
  assumes "savedMapCenter win = Some (JNum A, JNum B)"
  shows "snd (setCenter (Some (newLatLng (JNum A) (JNum B))) win m)
           = originalSetCenter (Some (newLatLng (JNum A) (JNum B))) m"
    and "savedMapCenter (fst (setCenter (Some (newLatLng (JNum A) (JNum B))) win m))
           = Some (JNum A, JNum B)"
  using assms
  by (simp_all add: setCenter_def wrappedSetCenter_def Let_def extractLat_def extractLng_def
        newLatLng_def)

lemma monitorContainer_saved:
  assumes "savedMapCenter win = Some (JNum A, JNum B)"
  shows "\<exists>win' c'. monitorContainer win c = Some (win', c')
            \<and> savedMapCenter win' = Some (JNum A, JNum B)"
  using assms setCenter_saved_coords(2) [OF assms]
  by (auto simp: monitorContainer_def split: option.splits)

lemma isAtDefault_truthy:
  assumes "isAtDefault lat lng"
  shows "truthy lat" and "truthy lng"
  using assms
  by (cases lat; cases lng;
      auto simp: isAtDefault_def absDiffLess_def DEFAULT_SEOUL_LAT_def DEFAULT_SEOUL_LNG_def)+

lemma monitorContainer_restores:
  assumes "savedMapCenter win = Some (JNum A, JNum B)"
    and "center m = Some cc"
    and "isAtDefault (currentLat cc) (currentLng cc)"
    and "\<not> isAtSaved (currentLat cc) (currentLng cc) (JNum A, JNum B)"
  shows "\<exists>win'. monitorContainer win (Some m)
            = Some (win', Some (originalSetCenter (Some (newLatLng (JNum A) (JNum B))) m))"
  using assms isAtDefault_truthy [OF assms(3)] setCenter_saved_coords(1) [OF assms(1)]
  by (simp add: monitorContainer_def)

lemma monitorContainer_restored_again:
  assumes "savedMapCenter win = Some (JNum A, JNum B)"
    and "center m = Some (newLatLng (JNum A) (JNum B))"
  shows "monitorContainer win (Some m) = Some (win, Some m)"
  using assms
  by (simp add: monitorContainer_def currentLat_def currentLng_def newLatLng_def
        isAtSaved_def absDiffLess_def)

lemma putBack_other: "c \<noteq> Some h \<Longrightarrow> putBack ws c r ! h = ws ! h"
  by (cases c; cases r) (simp_all add: putBack_def)

lemma length_putBack: "length (putBack ws c r) = length ws"
  by (simp add: putBack_def split: option.splits)

text \<open>An instance that displays the saved center is left alone by the rest of the run.\<close>

lemma monitorHandles_keeps_restored:
  assumes "savedMapCenter win = Some (JNum A, JNum B)"
    and "h < length ws"
    and "ws ! h = m'" and "center m' = Some (newLatLng (JNum A) (JNum B))"
  shows "snd (monitorHandles win ws cs) ! h = m'"
  using assms(1,2,3)
proof (induction cs arbitrary: win ws)
  case Nil
  then show ?case by simp
next
  case (Cons c cs)
  obtain win' r where step: "monitorContainer win (attachedMap ws c) = Some (win', r)"
    and saved': "savedMapCenter win' = Some (JNum A, JNum B)"
    using monitorContainer_saved [OF Cons.prems(1)] by blast
  have put: "putBack ws c r ! h = m'"
  proof (cases "c = Some h")
    case True
    then have "attachedMap ws c = Some m'"
      using Cons.prems(2,3) by (simp add: attachedMap_def)
    then have "r = Some m'"
      using step monitorContainer_restored_again [OF Cons.prems(1) assms(4)] by simp
    then show ?thesis using True Cons.prems(2) by (simp add: putBack_def)
  next
    case False
    then show ?thesis using Cons.prems(3) by (simp add: putBack_other)
  qed
  have "snd (monitorHandles win' (putBack ws c r) cs) ! h = m'"
    using Cons.IH [OF saved' _ put] Cons.prems(2) by (simp add: length_putBack)
  then show ?case using step by simp
qed

lemma monitorHandles_restores:
  assumes "savedMapCenter win = Some (JNum A, JNum B)"
    and "h < length ws" and "Some h \<in> set cs"
    and "ws ! h = m" and "center m = Some cc"
    and "isAtDefault (currentLat cc) (currentLng cc)"
    and "\<not> isAtSaved (currentLat cc) (currentLng cc) (JNum A, JNum B)"
  shows "snd (monitorHandles win ws cs) ! h
           = originalSetCenter (Some (newLatLng (JNum A) (JNum B))) m"
  using assms(1,2,3,4)
proof (induction cs arbitrary: win ws)
  case Nil
  then show ?case by simp
next
  case (Cons c cs)
  let ?m' = "originalSetCenter (Some (newLatLng (JNum A) (JNum B))) m"
  have c': "center ?m' = Some (newLatLng (JNum A) (JNum B))"
    by (simp add: originalSetCenter_def)
  obtain win' r where step: "monitorContainer win (attachedMap ws c) = Some (win', r)"
    and saved': "savedMapCenter win' = Some (JNum A, JNum B)"
    using monitorContainer_saved [OF Cons.prems(1)] by blast
  have len: "h < length (putBack ws c r)"
    using Cons.prems(2) by (simp add: length_putBack)
  show ?case
  proof (cases "c = Some h")
    case True
    then have "attachedMap ws c = Some m"
      using Cons.prems(2,4) by (simp add: attachedMap_def)
    then have "r = Some ?m'"
      using step monitorContainer_restores [OF Cons.prems(1) assms(5,6,7)] by auto
    then have "putBack ws c r ! h = ?m'"
      using True Cons.prems(2) by (simp add: putBack_def)
    then have "snd (monitorHandles win' (putBack ws c r) cs) ! h = ?m'"
      using monitorHandles_keeps_restored [OF saved' len _ c'] by blast
    then show ?thesis using step by simp
  next
    case False
    then have "Some h \<in> set cs" using Cons.prems(3) by simp
    moreover have "putBack ws c r ! h = m"
      using False Cons.prems(4) by (simp add: putBack_other)
    ultimately have "snd (monitorHandles win' (putBack ws c r) cs) ! h = ?m'"
      using Cons.IH [OF saved' len] by blast
    then show ?thesis using step by simp
  qed
qed

lemma defaultLatLng_at_default:
  "isAtDefault (currentLat defaultLatLng) (currentLng defaultLatLng)"
  by (simp add: defaultLatLng_def newLatLng_def currentLat_def currentLng_def isAtDefault_def
        absDiffLess_def DEFAULT_SEOUL_LAT_def DEFAULT_SEOUL_LNG_def)

lemma defaultLatLng_not_at_saved:
  "\<not> isAtSaved (currentLat defaultLatLng) (currentLng defaultLatLng) (JNum 37.5, JNum 127)"
  by (simp add: defaultLatLng_def newLatLng_def currentLat_def currentLng_def isAtSaved_def
        absDiffLess_def DEFAULT_SEOUL_LAT_def DEFAULT_SEOUL_LNG_def)

text \<open>
  C7 as stated fails: the interval does not look at the live instances, only at the
  elements the selector matches and their \<open>__naverMap\<close> property, which nothing in the
  script sets.  The library is loaded and \<open>(37.5, 127)\<close> is saved; an instance that came
  out of the intercepted constructor displays the default center (reached without any
  \<open>setCenter\<close> call); the page has one matching element, without \<open>__naverMap\<close>.  A run of
  the interval changes nothing: the instance still displays the default center and its
  original \<open>setCenter\<close> has not been invoked.
\<close>

theorem unattached_instance_not_restored:
  "monitorPage savedWindow [interceptedMap (Some defaultLatLng)] [None]
     = (savedWindow, [interceptedMap (Some defaultLatLng)])
   \<and> savedMapCenter savedWindow = Some (JNum 37.5, JNum 127)
   \<and> naverLoaded savedWindow
   \<and> center (interceptedMap (Some defaultLatLng)) = Some defaultLatLng
   \<and> originalCalls (interceptedMap (Some defaultLatLng)) = []
   \<and> isAtDefault (currentLat defaultLatLng) (currentLng defaultLatLng)
   \<and> \<not> isAtSaved (currentLat defaultLatLng) (currentLng defaultLatLng) (JNum 37.5, JNum 127)"
  using defaultLatLng_at_default defaultLatLng_not_at_saved
  by (simp add: monitorPage_def attachedMap_def monitorContainer_def putBack_def
        savedWindow_def interceptedMap_def)

text \<open>
  C7, amended: let a live map instance, wrapped or not, be the \<open>__naverMap\<close> of some
  element the selector matches, and let \<open>getCenter()\<close> answer an object whose coordinates,
  read as \<open>lat || y\<close> and \<open>lng || x\<close>, are within 0.00001 of the default (however the
  instance got there, no \<open>setCenter\<close> call is assumed), while the library is loaded and the
  saved center \<open>(A, B)\<close> is not within 0.00001 of the displayed one.  Then one run of the
  interval invokes the instance's original \<open>setCenter\<close> exactly once, with
  \<open>LatLng(A, B)\<close>, whatever else the page holds, and the instance displays \<open>(A, B)\<close>
  afterwards.
\<close>

theorem monitor_restores_attached_instance:
  assumes "naverLoaded win"
    and "savedMapCenter win = Some (JNum A, JNum B)"
    and "Some h \<in> set cs" and "h < length ws"
    and "center (ws ! h) = Some cc"
    and "isAtDefault (currentLat cc) (currentLng cc)"
    and "\<not> isAtSaved (currentLat cc) (currentLng cc) (JNum A, JNum B)"
  shows "snd (monitorPage win ws cs) ! h
           = originalSetCenter (Some (newLatLng (JNum A) (JNum B))) (ws ! h)
       \<and> center (snd (monitorPage win ws cs) ! h) = Some (newLatLng (JNum A) (JNum B))
       \<and> originalCalls (snd (monitorPage win ws cs) ! h)
           = originalCalls (ws ! h) @ [Some (newLatLng (JNum A) (JNum B))]"
proof -
  have "snd (monitorHandles win ws cs) ! h
          = originalSetCenter (Some (newLatLng (JNum A) (JNum B))) (ws ! h)"
    using monitorHandles_restores [OF assms(2) assms(4) assms(3) refl assms(5,6,7)] .
  then have "snd (monitorPage win ws cs) ! h
          = originalSetCenter (Some (newLatLng (JNum A) (JNum B))) (ws ! h)"
    using assms(1,2) by (simp add: monitorPage_def)
  then show ?thesis by (simp add: originalSetCenter_def)
qed

theorem monitor_restores_attached_instance_witness:
  "snd (monitorPage savedWindow
          [interceptedMap None, interceptedMap (Some defaultLatLng)] [None, Some 1, Some 1]) ! 1
     = \<lparr>center = Some (newLatLng (JNum 37.5) (JNum 127)),
        originalCalls = [Some (newLatLng (JNum 37.5) (JNum 127))],
        wrapped = True\<rparr>"
  using monitor_restores_attached_instance
          [of savedWindow "37.5" "127" 1 "[None, Some 1, Some 1]"
              "[interceptedMap None, interceptedMap (Some defaultLatLng)]" defaultLatLng,
           OF _ _ _ _ _ defaultLatLng_at_default defaultLatLng_not_at_saved]
  by (simp add: savedWindow_def interceptedMap_def originalSetCenter_def)

section \<open>The location store of the receiver\<close>

lemma updateMapCenter_keeps_lastLocation:
  "lastLocation (updateMapCenter loc p) = lastLocation p"
  by (simp add: updateMapCenter_def split: option.splits)

lemma handleLocationUpdate_lastLocation:
  "lastLocation (snd (handleLocationUpdate d p)) = (if accepted d then d else lastLocation p)"
  by (simp add: handleLocationUpdate_def accepted_def Let_def updateMapCenter_keeps_lastLocation
        notifyListeners_def callOnGPSUpdate_def split: option.splits)

text \<open>
  C2 as stated fails: the handler compares no timestamps.  The store holds the sample
  with timestamp 1000; the sample with timestamp 900 is delivered next and replaces it.
\<close>

theorem stale_sample_overwrites_store:
  "lastLocation (deliver [Some sample1000] emptyPage) = Some sample1000
   \<and> lastLocation (deliver [Some sample1000, Some sample900] emptyPage) = Some sample900
   \<and> timestamp sample900 < timestamp sample1000"
  by (simp add: handleLocationUpdate_def sample1000_def sample900_def emptyPage_def Let_def
       updateMapCenter_def notifyListeners_def callOnGPSUpdate_def)

text \<open>
  C2, amended: the store is written by the last writer.  After any sequence of
  deliveries it holds the last delivered sample that passed the validation (present, with
  a latitude of type number), whatever the timestamps, and is as before when none passed.
\<close>

theorem store_holds_last_accepted_sample:
  "lastLocation (deliver ds p)
     = (if filter accepted ds = [] then lastLocation p else last (filter accepted ds))"
proof (induction ds arbitrary: p)
  case Nil
  show ?case by simp
next
  case (Cons d ds)
  show ?case
    by (simp add: Cons.IH handleLocationUpdate_lastLocation)
qed

theorem store_holds_last_accepted_sample_witness:
  "lastLocation (deliver [Some sample900, None, Some sample1000, Some sample900, None] emptyPage)
     = Some sample900"
  using store_holds_last_accepted_sample
          [of "[Some sample900, None, Some sample1000, Some sample900, None]" emptyPage]
  by (simp add: accepted_def sample900_def sample1000_def)

section \<open>Re-centering after a sample\<close>

text \<open>
  C8 as stated fails: an accepted sample does not always move the map.  The map shows
  \<open>(37.5, 127)\<close>, the library is loaded, no hook and no listener is installed.  With
  auto-follow on, the sample \<open>(37.5001, 127)\<close>, for which the script computes a distance
  of about 11.12 m, is accepted and stored, but the map is not re-centered: the page
  differs from the old one in the receiver's state only.  With auto-follow switched off,
  the sample \<open>(38.5, 127)\<close>, about 111 km away, is stored and the map is not re-centered
  either.  In both cases the map still shows \<open>(37.5, 127)\<close> and its \<open>setCenter\<close> has not
  been called.
\<close>

theorem nearby_sample_does_not_recenter:
  "handleLocationUpdate
     (Some \<lparr>latitude = JNum 37.5001, longitude = JNum 127, accuracy = JNum 5, timestamp = 1000\<rparr>)
     (pageWithMap (mapAt 37.5 127) (Some 11.12))
   = (Normal,
      (pageWithMap (mapAt 37.5 127) (Some 11.12))
        \<lparr>isTracking := True,
         lastLocation := Some \<lparr>latitude = JNum 37.5001, longitude = JNum 127,
                                accuracy = JNum 5, timestamp = 1000\<rparr>,
         updateCount := 1\<rparr>)
   \<and> handleLocationUpdate
       (Some \<lparr>latitude = JNum 38.5, longitude = JNum 127, accuracy = JNum 5, timestamp = 1000\<rparr>)
       ((pageWithMap (mapAt 37.5 127) (Some 111195))\<lparr>autoFollowLocation := False\<rparr>)
     = (Normal,
        (pageWithMap (mapAt 37.5 127) (Some 111195))
          \<lparr>autoFollowLocation := False,
           isTracking := True,
           lastLocation := Some \<lparr>latitude = JNum 38.5, longitude = JNum 127,
                                  accuracy = JNum 5, timestamp = 1000\<rparr>,
           updateCount := 1\<rparr>)
   \<and> mapContainer (pageWithMap (mapAt 37.5 127) (Some 11.12)) = Some (mapAt 37.5 127)
   \<and> mapContainer (pageWithMap (mapAt 37.5 127) (Some 111195)) = Some (mapAt 37.5 127)
   \<and> mapCenter (mapAt 37.5 127) = Some (Some 37.5, Some 127)
   \<and> setCenterCalls (mapAt 37.5 127) = []"
  by (simp add: handleLocationUpdate_def Let_def updateMapCenter_def notifyListeners_def
        callOnGPSUpdate_def movedMoreThan50_def exceeds50_def pageWithMap_def mapAt_def)

text \<open>
  C8, amended: on a page without hook and listeners, after an accepted sample with numeric
  latitude and longitude the handler has stored the sample and run \<open>updateMapCenter\<close>;
  with the library loaded and a map with a numeric center attached to the container, the
  map is re-centered to the sample (one \<open>setCenter\<close> call) exactly when auto-follow is
  not disabled and the distance that the script's \<open>calculateDistance\<close> returns for the
  displayed center and the sample is a number greater than 50, and is left as it was
  otherwise, also when that distance is \<open>NaN\<close>.
\<close>

theorem accepted_sample_recenters_only_when_moved:
  assumes "latitude loc = JNum la" and "longitude loc = JNum lo"
    and "onGPSUpdate p = None" and "listeners p = []"
    and "naverMaps p" and "mapContainer p = Some m"
    and "mapCenter m = Some (Some clat, Some clng)"
  shows "mapContainer (snd (handleLocationUpdate (Some loc) p))
           = Some (if autoFollowLocation p \<and> exceeds50 (calculateDistance p clat clng la lo)
                   then m\<lparr>mapCenter := Some (Some la, Some lo),
                          setCenterCalls := setCenterCalls m @ [(Some la, Some lo)]\<rparr>
                   else m)
       \<and> lastLocation (snd (handleLocationUpdate (Some loc) p)) = Some loc"
  using assms
  by (simp add: handleLocationUpdate_def Let_def updateMapCenter_def notifyListeners_def
        callOnGPSUpdate_def movedMoreThan50_def split: option.splits)

theorem accepted_sample_recenters_only_when_moved_witness:
  "mapContainer (snd (handleLocationUpdate
       (Some \<lparr>latitude = JNum 38.5, longitude = JNum 127, accuracy = JNum 5, timestamp = 1000\<rparr>)
       (pageWithMap (mapAt 37.5 127) (Some 111195))))
     = Some \<lparr>mapCenter = Some (Some 38.5, Some 127), setCenterCalls = [(Some 38.5, Some 127)]\<rparr>"
  using accepted_sample_recenters_only_when_moved
     [of "\<lparr>latitude = JNum 38.5, longitude = JNum 127, accuracy = JNum 5, timestamp = 1000\<rparr>"
         "38.5" "127" "pageWithMap (mapAt 37.5 127) (Some 111195)" "mapAt 37.5 127" "37.5" "127"]
  by (simp add: pageWithMap_def mapAt_def exceeds50_def)

end
